theory Spec2Isabelle
  imports Main
begin

section \<open>Python string and path primitives used by the plugin\<close>

text \<open>
  The plugin (\<^verbatim>\<open>blender_quick_export.py\<close>) computes its output path with four
  functions of Python's \<^verbatim>\<open>os.path\<close> (the POSIX flavour, as the fixed directory
  \<^verbatim>\<open>/home/casey/dream/static\<close> is a POSIX path): \<^verbatim>\<open>basename\<close>, \<^verbatim>\<open>splitext\<close>,
  \<^verbatim>\<open>join\<close> and \<^verbatim>\<open>normpath\<close>. They are modelled after the library's own code,
  loops included. Python strings are modelled as \<^typ>\<open>string\<close>.
\<close>

text \<open>\<^verbatim>\<open>s.rfind(c)\<close>: the highest index of \<open>c\<close> in \<open>s\<close>, or \<open>-1\<close>.\<close>

fun rfind :: "char \<Rightarrow> string \<Rightarrow> int" where
  "rfind c [] = -1"
| "rfind c (x # xs) =
     (let r = rfind c xs
      in if 0 \<le> r then r + 1 else if x = c then 0 else -1)"

text \<open>\<^verbatim>\<open>s.startswith(t)\<close>.\<close>

definition startswith :: "string \<Rightarrow> string \<Rightarrow> bool" where
  "startswith s t = (take (length t) s = t)"

text \<open>\<^verbatim>\<open>s.endswith(t)\<close>.\<close>

definition endswith :: "string \<Rightarrow> string \<Rightarrow> bool" where
  "endswith s t = (length t \<le> length s \<and> drop (length s - length t) s = t)"

text \<open>\<^verbatim>\<open>s.split(c)\<close> for a one-character separator: never returns the empty list.\<close>

fun split_sep :: "char \<Rightarrow> string \<Rightarrow> string list" where
  "split_sep c [] = [[]]"
| "split_sep c (x # xs) =
     (if x = c then [] # split_sep c xs
      else (case split_sep c xs of
              [] \<Rightarrow> [[x]]
            | y # ys \<Rightarrow> (x # y) # ys))"

text \<open>\<^verbatim>\<open>sep.join(comps)\<close>.\<close>

fun join_sep :: "string \<Rightarrow> string list \<Rightarrow> string" where
  "join_sep sep [] = []"
| "join_sep sep [x] = x"
| "join_sep sep (x # y # ys) = x @ sep @ join_sep sep (y # ys)"

text \<open>
  \<^verbatim>\<open>posixpath.basename(p)\<close>:
  \<^verbatim>\<open>i = p.rfind('/') + 1; return p[i:]\<close>
\<close>

definition basename :: "string \<Rightarrow> string" where
  "basename p = (let i = rfind CHR ''/'' p + 1 in drop (nat i) p)"

text \<open>
  \<^verbatim>\<open>genericpath._splitext(p, sep, altsep, extsep)\<close>, with \<open>sep = '/'\<close>,
  \<open>altsep = None\<close>, \<open>extsep = '.'\<close>:
  \<^verbatim>\<open>
    sepIndex = p.rfind(sep)
    dotIndex = p.rfind(extsep)
    if dotIndex > sepIndex:
        # skip all leading dots
        filenameIndex = sepIndex + 1
        while filenameIndex < dotIndex:
            if p[filenameIndex:filenameIndex+1] != extsep:
                return p[:dotIndex], p[dotIndex:]
            filenameIndex += 1
    return p, p[:0]
  \<close>
  The loop is \<open>splitext_loop\<close>: \<open>Some\<close> is the \<^verbatim>\<open>return\<close> inside the loop,
  \<open>None\<close> is falling out of it.
\<close>

function splitext_loop :: "string \<Rightarrow> int \<Rightarrow> int \<Rightarrow> (string \<times> string) option" where
  "splitext_loop p filenameIndex dotIndex =
     (if filenameIndex < dotIndex then
        (if take 1 (drop (nat filenameIndex) p) \<noteq> ''.''
         then Some (take (nat dotIndex) p, drop (nat dotIndex) p)
         else splitext_loop p (filenameIndex + 1) dotIndex)
      else None)"
  by pat_completeness auto
termination
  by (relation "measure (\<lambda>(p, filenameIndex, dotIndex). nat (dotIndex - filenameIndex))") auto

declare splitext_loop.simps [simp del]

definition splitext :: "string \<Rightarrow> string \<times> string" where
  "splitext p =
     (let sepIndex = rfind CHR ''/'' p;
          dotIndex = rfind CHR ''.'' p
      in case (if dotIndex > sepIndex then splitext_loop p (sepIndex + 1) dotIndex else None) of
           Some r \<Rightarrow> r
         | None \<Rightarrow> (p, take 0 p))"

text \<open>
  \<^verbatim>\<open>posixpath.join(a, *p)\<close>:
  \<^verbatim>\<open>
    path = a
    for b in p:
        if b.startswith(sep) or not path:
            path = b
        elif path.endswith(sep):
            path += b
        else:
            path += sep + b
    return path
  \<close>
\<close>

definition join_step :: "string \<Rightarrow> string \<Rightarrow> string" where
  "join_step path b =
     (if startswith b ''/'' \<or> path = [] then b
      else if endswith path ''/'' then path @ b
      else path @ ''/'' @ b)"

definition join :: "string \<Rightarrow> string list \<Rightarrow> string" where
  "join a p = foldl join_step a p"

text \<open>
  \<^verbatim>\<open>posixpath.normpath(path)\<close>:
  \<^verbatim>\<open>
    if path == empty:
        return dot
    initial_slashes = path.startswith(sep)
    if (initial_slashes and
        path.startswith(sep*2) and not path.startswith(sep*3)):
        initial_slashes = 2
    comps = path.split(sep)
    new_comps = []
    for comp in comps:
        if comp in (empty, dot):
            continue
        if (comp != dotdot or (not initial_slashes and not new_comps) or
             (new_comps and new_comps[-1] == dotdot)):
            new_comps.append(comp)
        elif new_comps:
            new_comps.pop()
    comps = new_comps
    path = sep.join(comps)
    if initial_slashes:
        path = sep*initial_slashes + path
    return path or dot
  \<close>
\<close>

definition initial_slashes :: "string \<Rightarrow> nat" where
  "initial_slashes path =
     (if startswith path ''/'' then
        (if startswith path ''//'' \<and> \<not> startswith path ''///'' then 2 else 1)
      else 0)"

definition normpath_step :: "nat \<Rightarrow> string list \<Rightarrow> string \<Rightarrow> string list" where
  "normpath_step slashes new_comps cmp =
     (if cmp = [] \<or> cmp = ''.'' then new_comps
      else if cmp \<noteq> ''..'' \<or> (slashes = 0 \<and> new_comps = [])
              \<or> (new_comps \<noteq> [] \<and> last new_comps = ''..'')
           then new_comps @ [cmp]
      else if new_comps \<noteq> [] then butlast new_comps
      else new_comps)"

definition normpath :: "string \<Rightarrow> string" where
  "normpath path =
     (if path = [] then ''.''
      else let slashes = initial_slashes path;
               comps = foldl (normpath_step slashes) [] (split_sep CHR ''/'' path);
               path1 = join_sep ''/'' comps;
               path2 = (if slashes \<noteq> 0 then replicate slashes CHR ''/'' @ path1 else path1)
           in if path2 = [] then ''.'' else path2)"

section \<open>The export path of \<^verbatim>\<open>QuickExportGLTFOperator.execute\<close>\<close>

text \<open>
  Lines 26 to 30 of the source:
  \<^verbatim>\<open>
    blend_name = os.path.basename(blend_path)
    name_no_ext = os.path.splitext(blend_name)[0]
    export_path = os.path.join(f"/home/casey/dream/static/{name_no_ext}.glb")
    export_path = os.path.normpath(export_path)
  \<close>
  \<^verbatim>\<open>os.path.join\<close> is called with one argument.
\<close>

definition export_path :: "string \<Rightarrow> string" where
  "export_path blend_path =
     (let blend_name = basename blend_path;
          name_no_ext = fst (splitext blend_name);
          export_path0 = join (''/home/casey/dream/static/'' @ name_no_ext @ ''.glb'') []
      in normpath export_path0)"

section \<open>The host application as seen by the plugin\<close>

text \<open>
  The plugin runs inside Blender and talks to it through \<^verbatim>\<open>bpy\<close>. The host is
  modelled by the parts of its state the plugin reads or writes:
  \<^item> \<^verbatim>\<open>bpy.data.filepath\<close>, the path of the open document (empty when never saved);
  \<^item> the registered classes (\<^verbatim>\<open>bpy.utils.register_class\<close> and
    \<^verbatim>\<open>unregister_class\<close>);
  \<^item> the draw callbacks of the panel \<^verbatim>\<open>bpy.types.SCENE_PT_scene\<close>, a Python list;
  \<^item> the calls made to the host exporter \<^verbatim>\<open>bpy.ops.export_scene.gltf\<close>, in order:
    the exporter is the host's own and is represented by the record of its calls;
  \<^item> the messages passed to \<^verbatim>\<open>Operator.report\<close>, in order.
\<close>

datatype py_error = RuntimeError | ValueError

datatype report_type = WARNING | INFO

datatype op_status = CANCELLED | FINISHED

datatype bpy_class = QuickExportGLTFOperator | Host_class nat

datatype draw_func = Draw_export_button | Host_draw nat


record gltf_args =
  filepath :: string
  export_format :: string
  export_apply :: bool

record host =
  data_filepath :: string
  registered_classes :: "bpy_class list"
  SCENE_PT_scene_draw_funcs :: "draw_func list"
  gltf_calls :: "gltf_args list"
  reports :: "(report_type set \<times> string) list"


definition bl_label :: string where
  "bl_label = ''Quick Export glTF''"

definition bl_description :: string where
  "bl_description = ''Export current file to ~/dream/static/{filename}.glb''"

text \<open>\<^verbatim>\<open>self.report(type, message)\<close>.\<close>

definition report :: "report_type set \<Rightarrow> string \<Rightarrow> host \<Rightarrow> host" where
  "report ty msg h = h\<lparr>reports := reports h @ [(ty, msg)]\<rparr>"

text \<open>
  \<^verbatim>\<open>bpy.ops.export_scene.gltf(**args)\<close>. The call is recorded; whether the host
  exporter returns or raises is the host's business, given by \<open>gltf\<close>
  (\<open>None\<close>: the call returns, and the plugin ignores the value; \<open>Some e\<close>: it
  raises \<open>e\<close>).
\<close>

definition export_scene_gltf ::
  "(gltf_args \<Rightarrow> py_error option) \<Rightarrow> gltf_args \<Rightarrow> host \<Rightarrow> (py_error + unit) \<times> host" where
  "export_scene_gltf gltf args h =
     (let h1 = h\<lparr>gltf_calls := gltf_calls h @ [args]\<rparr>
      in case gltf args of Some e \<Rightarrow> (Inl e, h1) | None \<Rightarrow> (Inr (), h1))"

text \<open>A host exporter that returns from every call.\<close>

definition gltf_returns :: "gltf_args \<Rightarrow> py_error option" where
  "gltf_returns args = None"

text \<open>A host exporter that raises \<^verbatim>\<open>RuntimeError\<close> from every call.\<close>

definition gltf_raises :: "gltf_args \<Rightarrow> py_error option" where
  "gltf_raises args = Some RuntimeError"

text \<open>
  \<^verbatim>\<open>QuickExportGLTFOperator.execute\<close> (lines 20 to 39). The result is the returned
  status set, or the exception that left the method, together with the host state
  at that point. The source has no \<^verbatim>\<open>try\<close>: an exception of the host exporter
  leaves \<^verbatim>\<open>execute\<close> at once, after the call was made.
\<close>

definition execute ::
  "(gltf_args \<Rightarrow> py_error option) \<Rightarrow> host \<Rightarrow> (py_error + op_status set) \<times> host" where
  "execute gltf h =
     (let blend_path = data_filepath h
      in if blend_path = [] then
           (Inr {CANCELLED}, report {WARNING} ''Please save the .blend file first.'' h)
         else
           let export_path1 = export_path blend_path;
               args = \<lparr>filepath = export_path1, export_format = ''GLB'', export_apply = True\<rparr>
           in case export_scene_gltf gltf args h of
                (Inl e, h1) \<Rightarrow> (Inl e, h1)
              | (Inr _, h1) \<Rightarrow> (Inr {FINISHED}, report {INFO} (''Exported to '' @ export_path1) h1))"




text \<open>
  The four host calls of \<^verbatim>\<open>register\<close> and \<^verbatim>\<open>unregister\<close>:
  \<^item> \<^verbatim>\<open>bpy.utils.register_class(cls)\<close> raises \<^verbatim>\<open>ValueError\<close> when the class is
    registered already;
  \<^item> \<^verbatim>\<open>bpy.utils.unregister_class(cls)\<close> raises \<^verbatim>\<open>RuntimeError\<close> when it is not
    registered;
  \<^item> \<^verbatim>\<open>SCENE_PT_scene.append(f)\<close> is \<^verbatim>\<open>draw_funcs.append(f)\<close>;
  \<^item> \<^verbatim>\<open>SCENE_PT_scene.remove(f)\<close> is \<^verbatim>\<open>draw_funcs.remove(f)\<close> with the
    \<^verbatim>\<open>ValueError\<close> of a missing element swallowed: the first occurrence goes.
\<close>

datatype bpy_call =
    Register_class bpy_class
  | Unregister_class bpy_class
  | Panel_append draw_func
  | Panel_remove draw_func

fun host_call :: "bpy_call \<Rightarrow> host \<Rightarrow> py_error + host" where
  "host_call (Register_class c) h =
     (if c \<in> set (registered_classes h) then Inl ValueError
      else Inr (h\<lparr>registered_classes := registered_classes h @ [c]\<rparr>))"
| "host_call (Unregister_class c) h =
     (if c \<in> set (registered_classes h)
      then Inr (h\<lparr>registered_classes := remove1 c (registered_classes h)\<rparr>)
      else Inl RuntimeError)"
| "host_call (Panel_append f) h =
     Inr (h\<lparr>SCENE_PT_scene_draw_funcs := SCENE_PT_scene_draw_funcs h @ [f]\<rparr>)"
| "host_call (Panel_remove f) h =
     Inr (h\<lparr>SCENE_PT_scene_draw_funcs := remove1 f (SCENE_PT_scene_draw_funcs h)\<rparr>)"

text \<open>
  A function body that is a sequence of host calls: the calls run in order, and the
  first exception ends the run, leaving the state reached so far.
\<close>

fun run_calls :: "bpy_call list \<Rightarrow> host \<Rightarrow> (py_error + unit) \<times> host" where
  "run_calls [] h = (Inr (), h)"
| "run_calls (c # cs) h =
     (case host_call c h of
        Inl e \<Rightarrow> (Inl e, h)
      | Inr h1 \<Rightarrow> run_calls cs h1)"

text \<open>The states reached after each call that returned, in order.\<close>

fun states_after :: "bpy_call list \<Rightarrow> host \<Rightarrow> host list" where
  "states_after [] h = []"
| "states_after (c # cs) h =
     (case host_call c h of
        Inl e \<Rightarrow> []
      | Inr h1 \<Rightarrow> h1 # states_after cs h1)"


text \<open>\<^verbatim>\<open>register\<close> (lines 47 to 49) and \<^verbatim>\<open>unregister\<close> (lines 52 to 54).\<close>

definition register_calls :: "bpy_call list" where
  "register_calls = [Register_class QuickExportGLTFOperator, Panel_append Draw_export_button]"

definition unregister_calls :: "bpy_call list" where
  "unregister_calls = [Panel_remove Draw_export_button, Unregister_class QuickExportGLTFOperator]"

definition register :: "host \<Rightarrow> (py_error + unit) \<times> host" where
  "register h = run_calls register_calls h"

definition unregister :: "host \<Rightarrow> (py_error + unit) \<times> host" where
  "unregister h = run_calls unregister_calls h"





section \<open>What the specification says, in its own words\<close>

text \<open>
  The fixed directory, and the name with its extension replaced: the extension is the
  part from the last dot on, when a character other than a dot comes before that dot.
\<close>

definition static_dir :: string where
  "static_dir = ''/home/casey/dream/static''"

definition has_extension :: "string \<Rightarrow> bool" where
  "has_extension name =
     (CHR ''.'' \<in> set name
      \<and> dropWhile (\<lambda>c. c = CHR ''.'') (rev (tl (dropWhile (\<lambda>c. c \<noteq> CHR ''.'') (rev name)))) \<noteq> [])"

definition replace_extension :: "string \<Rightarrow> string \<Rightarrow> string" where
  "replace_extension name ext =
     (if has_extension name
      then rev (tl (dropWhile (\<lambda>c. c \<noteq> CHR ''.'') (rev name))) @ ext
      else name @ ext)"

definition spec_export_path :: "string \<Rightarrow> string" where
  "spec_export_path blend_path =
     join static_dir [replace_extension (basename blend_path) ''.glb'']"

section \<open>Properties of the path primitives\<close>

lemma rfind_absent: "c \<notin> set s \<Longrightarrow> rfind c s = -1"
  by (induction s) (auto simp: Let_def)

lemma rfind_last: "c \<notin> set ys \<Longrightarrow> rfind c (xs @ c # ys) = int (length xs)"
  by (induction xs) (auto simp: Let_def rfind_absent)

lemma rfind_ge: "-1 \<le> rfind c s"
  by (induction s) (auto simp: Let_def)

lemma basename_no_sep: "CHR ''/'' \<notin> set n \<Longrightarrow> basename n = n"
  by (simp add: basename_def rfind_absent)

lemma basename_after_sep: "CHR ''/'' \<notin> set n \<Longrightarrow> basename (d @ CHR ''/'' # n) = n"
proof -
  assume "CHR ''/'' \<notin> set n"
  then have "rfind CHR ''/'' (d @ CHR ''/'' # n) = int (length d)" by (rule rfind_last)
  then have "basename (d @ CHR ''/'' # n) = drop (Suc (length d)) (d @ CHR ''/'' # n)"
    by (simp add: basename_def nat_add_distrib)
  then show ?thesis by simp
qed

lemma basename_free: "CHR ''/'' \<notin> set (basename p)"
proof (cases "CHR ''/'' \<in> set p")
  case True
  then obtain d n where "p = d @ CHR ''/'' # n" "CHR ''/'' \<notin> set n"
    by (meson split_list_last)
  then show ?thesis by (simp add: basename_after_sep)
next
  case False
  then show ?thesis by (simp add: basename_no_sep)
qed

lemma splitext_loop_all_dots:
  "0 \<le> i \<Longrightarrow> d \<le> int (length p) \<Longrightarrow>
   splitext_loop p i d =
     (if \<forall>j. i \<le> j \<and> j < d \<longrightarrow> p ! nat j = CHR ''.'' then None
      else Some (take (nat d) p, drop (nat d) p))"
proof (induction p i d rule: splitext_loop.induct)
  case (1 p i d)
  show ?case
  proof (cases "i < d")
    case False
    then show ?thesis by (simp add: splitext_loop.simps)
  next
    case True
    with 1 have len: "nat i < length p" by linarith
    then have one: "take 1 (drop (nat i) p) = [p ! nat i]"
      by (metis Cons_nth_drop_Suc One_nat_def take0 take_Suc_Cons)
    show ?thesis
    proof (cases "p ! nat i = CHR ''.''")
      case False
      with True one have "splitext_loop p i d = Some (take (nat d) p, drop (nat d) p)"
        by (subst splitext_loop.simps) simp
      moreover from False True have "\<not> (\<forall>j. i \<le> j \<and> j < d \<longrightarrow> p ! nat j = CHR ''.'')"
        by force
      ultimately show ?thesis by simp
    next
      case dot: True
      with True one have "splitext_loop p i d = splitext_loop p (i + 1) d"
        by (subst splitext_loop.simps) simp
      also have "\<dots> = (if \<forall>j. i + 1 \<le> j \<and> j < d \<longrightarrow> p ! nat j = CHR ''.'' then None
          else Some (take (nat d) p, drop (nat d) p))"
        using 1 True one dot by simp
      also have "(\<forall>j. i + 1 \<le> j \<and> j < d \<longrightarrow> p ! nat j = CHR ''.'')
          = (\<forall>j. i \<le> j \<and> j < d \<longrightarrow> p ! nat j = CHR ''.'')"
      proof (intro iffI allI impI)
        fix j
        assume a: "\<forall>j. i + 1 \<le> j \<and> j < d \<longrightarrow> p ! nat j = CHR ''.''" and b: "i \<le> j \<and> j < d"
        show "p ! nat j = CHR ''.''"
        proof (cases "j = i")
          case True
          with dot show ?thesis by simp
        next
          case False
          with b have "i + 1 \<le> j \<and> j < d" by linarith
          with a show ?thesis by blast
        qed
      next
        fix j
        assume a: "\<forall>j. i \<le> j \<and> j < d \<longrightarrow> p ! nat j = CHR ''.''" and b: "i + 1 \<le> j \<and> j < d"
        from b have "i \<le> j \<and> j < d" by linarith
        with a show "p ! nat j = CHR ''.''" by blast
      qed
      finally show ?thesis .
    qed
  qed
qed


lemma splitext_no_dot: "CHR ''.'' \<notin> set n \<Longrightarrow> splitext n = (n, [])"
  using rfind_ge [of "CHR ''/''" n] by (simp add: splitext_def rfind_absent Let_def)

lemma splitext_leading_dots:
  assumes "CHR ''/'' \<notin> set (ds @ r)" and "\<forall>c\<in>set ds. c = CHR ''.''" and "CHR ''.'' \<notin> set r"
  shows "splitext (ds @ r) = (ds @ r, [])"
proof (cases "ds = []")
  case True
  with assms show ?thesis by (simp add: splitext_no_dot)
next
  case False
  then obtain ds' where ds: "ds = ds' @ [CHR ''.'']"
    using assms(2) by (metis last_in_set snoc_eq_iff_butlast)
  have dot: "rfind CHR ''.'' (ds @ r) = int (length ds')"
    using assms(3) by (simp add: ds rfind_last)
  have sep: "rfind CHR ''/'' (ds @ r) = -1"
    using assms(1) by (intro rfind_absent)
  have all: "\<forall>j. 0 \<le> j \<and> j < int (length ds') \<longrightarrow> (ds @ r) ! nat j = CHR ''.''"
  proof (intro allI impI)
    fix j :: int
    assume "0 \<le> j \<and> j < int (length ds')"
    then have "nat j < length ds'" by linarith
    then have lt: "nat j < length ds" by (simp add: ds)
    then have "(ds @ r) ! nat j = ds ! nat j" by (simp add: nth_append)
    also have "\<dots> = CHR ''.''" using assms(2) lt nth_mem by blast
    finally show "(ds @ r) ! nat j = CHR ''.''" .
  qed
  have "int (length ds') \<le> int (length (ds @ r))" by (simp add: ds)
  then have "splitext_loop (ds @ r) 0 (int (length ds')) = None"
    using all by (simp add: splitext_loop_all_dots)
  then show ?thesis
    by (simp add: splitext_def dot sep Let_def)
qed

lemma splitext_stem:
  assumes "CHR ''/'' \<notin> set (stem @ CHR ''.'' # ext)" and "\<exists>c\<in>set stem. c \<noteq> CHR ''.''"
    and "CHR ''.'' \<notin> set ext"
  shows "splitext (stem @ CHR ''.'' # ext) = (stem, CHR ''.'' # ext)"
proof -
  let ?p = "stem @ CHR ''.'' # ext"
  have dot: "rfind CHR ''.'' ?p = int (length stem)"
    using assms(3) by (simp add: rfind_last)
  have sep: "rfind CHR ''/'' ?p = -1"
    using assms(1) by (intro rfind_absent)
  from assms(2) obtain k where "k < length stem" "stem ! k \<noteq> CHR ''.''"
    by (metis in_set_conv_nth)
  then have "0 \<le> int k \<and> int k < int (length stem) \<and> ?p ! nat (int k) \<noteq> CHR ''.''"
    by (simp add: nth_append)
  then have "\<not> (\<forall>j. 0 \<le> j \<and> j < int (length stem) \<longrightarrow> ?p ! nat j = CHR ''.'')"
    by blast
  moreover have "int (length stem) \<le> int (length ?p)" by simp
  ultimately have "splitext_loop ?p 0 (int (length stem)) = Some (stem, CHR ''.'' # ext)"
    by (simp add: splitext_loop_all_dots)
  moreover have "stem \<noteq> []" using assms(2) by auto
  ultimately show ?thesis
    by (simp add: splitext_def dot sep)
qed

lemma split_sep_no_sep: "c \<notin> set xs \<Longrightarrow> split_sep c xs = [xs]"
  by (induction xs) auto

lemma startswith_sep_iff: "startswith b ''/'' = (\<exists>t. b = CHR ''/'' # t)"
  by (cases b) (auto simp: startswith_def)

lemma join_static_dir:
  "CHR ''/'' \<notin> set m \<Longrightarrow> join static_dir [m] = ''/home/casey/dream/static/'' @ m"
  by (auto simp: join_def join_step_def static_dir_def endswith_def startswith_sep_iff)

lemma normpath_static:
  assumes "CHR ''/'' \<notin> set m" and "m \<noteq> []" and "m \<noteq> ''.''" and "m \<noteq> ''..''"
  shows "normpath (''/home/casey/dream/static/'' @ m) = ''/home/casey/dream/static/'' @ m"
proof -
  have comps: "split_sep CHR ''/'' (''/home/casey/dream/static/'' @ m)
      = [[], ''home'', ''casey'', ''dream'', ''static'', m]"
    using assms(1) by (simp add: split_sep_no_sep)
  have sl: "initial_slashes (''/home/casey/dream/static/'' @ m) = 1"
    by (simp add: initial_slashes_def startswith_def)
  have loop: "foldl (normpath_step 1) [] [[], ''home'', ''casey'', ''dream'', ''static'', m]
      = [''home'', ''casey'', ''dream'', ''static'', m]"
    using assms(2-4) by (simp add: normpath_step_def)
  have "normpath (''/home/casey/dream/static/'' @ m)
      = replicate 1 CHR ''/'' @ join_sep ''/'' [''home'', ''casey'', ''dream'', ''static'', m]"
    by (simp only: normpath_def Let_def comps sl loop) simp
  then show ?thesis by simp
qed

lemma glb_name_not_special:
  "n @ ''.glb'' \<noteq> []" "n @ ''.glb'' \<noteq> ''.''" "n @ ''.glb'' \<noteq> ''..''"
proof -
  have len: "length (n @ ''.glb'') = length n + 4" by simp
  show "n @ ''.glb'' \<noteq> []" by simp
  show "n @ ''.glb'' \<noteq> ''.''"
  proof
    assume "n @ ''.glb'' = ''.''"
    then have "length (n @ ''.glb'') = length ''.''" by (rule arg_cong)
    with len show False by simp
  qed
  show "n @ ''.glb'' \<noteq> ''..''"
  proof
    assume "n @ ''.glb'' = ''..''"
    then have "length (n @ ''.glb'') = length ''..''" by (rule arg_cong)
    with len show False by simp
  qed
qed

lemma splitext_fst_no_sep: "CHR ''/'' \<notin> set n \<Longrightarrow> CHR ''/'' \<notin> set (fst (splitext n))"
proof (cases "CHR ''.'' \<in> set n")
  case False
  assume "CHR ''/'' \<notin> set n"
  with False show ?thesis by (simp add: splitext_no_dot)
next
  case True
  assume sep: "CHR ''/'' \<notin> set n"
  from True obtain stem ext where n: "n = stem @ CHR ''.'' # ext" and ext: "CHR ''.'' \<notin> set ext"
    by (meson split_list_last)
  show ?thesis
  proof (cases "\<exists>c\<in>set stem. c \<noteq> CHR ''.''")
    case True
    with sep ext show ?thesis by (simp add: n splitext_stem)
  next
    case False
    then have dots: "\<forall>c\<in>set (stem @ [CHR ''.'']). c = CHR ''.''" by auto
    have "CHR ''/'' \<notin> set ((stem @ [CHR ''.'']) @ ext)" using sep by (simp add: n)
    then have "splitext ((stem @ [CHR ''.'']) @ ext) = ((stem @ [CHR ''.'']) @ ext, [])"
      using dots ext by (rule splitext_leading_dots)
    with sep show ?thesis by (simp add: n)
  qed
qed

lemma replace_extension_stem:
  assumes "\<exists>c\<in>set stem. c \<noteq> CHR ''.''" and "CHR ''.'' \<notin> set ext"
  shows "replace_extension (stem @ CHR ''.'' # ext) new = stem @ new"
proof -
  have dw: "dropWhile (\<lambda>c. c \<noteq> CHR ''.'') (rev (stem @ CHR ''.'' # ext)) = CHR ''.'' # rev stem"
    using assms(2) by (auto simp: dropWhile_append3)
  have "dropWhile (\<lambda>c. c = CHR ''.'') stem \<noteq> []"
    using assms(1) by (simp add: dropWhile_eq_Nil_conv)
  then show ?thesis
    by (simp only: replace_extension_def has_extension_def dw) simp
qed

lemma replace_extension_leading_dots:
  assumes "\<forall>c\<in>set ds. c = CHR ''.''" and "CHR ''.'' \<notin> set r"
  shows "replace_extension (ds @ r) new = ds @ r @ new"
proof (cases "ds = []")
  case True
  with assms show ?thesis by (simp add: replace_extension_def has_extension_def)
next
  case False
  then obtain ds' where ds: "ds = ds' @ [CHR ''.'']"
    using assms(1) by (metis last_in_set snoc_eq_iff_butlast)
  have dw: "dropWhile (\<lambda>c. c \<noteq> CHR ''.'') (rev (ds @ r)) = CHR ''.'' # rev ds'"
    using assms(2) by (auto simp: ds dropWhile_append3)
  have "dropWhile (\<lambda>c. c = CHR ''.'') ds' = []"
    using assms(1) by (simp add: ds)
  then have "\<not> has_extension (ds @ r)"
    by (simp only: has_extension_def dw) simp
  then show ?thesis by (simp add: replace_extension_def)
qed

lemma splitext_replace_extension:
  assumes "CHR ''/'' \<notin> set n"
  shows "fst (splitext n) @ new = replace_extension n new"
proof (cases "CHR ''.'' \<in> set n")
  case False
  then show ?thesis
    using replace_extension_leading_dots [of "[]" n new] by (simp add: splitext_no_dot)
next
  case True
  then obtain stem ext where n: "n = stem @ CHR ''.'' # ext" and ext: "CHR ''.'' \<notin> set ext"
    by (meson split_list_last)
  show ?thesis
  proof (cases "\<exists>c\<in>set stem. c \<noteq> CHR ''.''")
    case True
    with assms ext show ?thesis by (simp add: n splitext_stem replace_extension_stem)
  next
    case False
    then have dots: "\<forall>c\<in>set (stem @ [CHR ''.'']). c = CHR ''.''" by auto
    have "CHR ''/'' \<notin> set ((stem @ [CHR ''.'']) @ ext)" using assms by (simp add: n)
    then have "splitext ((stem @ [CHR ''.'']) @ ext) = ((stem @ [CHR ''.'']) @ ext, [])"
      using dots ext by (rule splitext_leading_dots)
    moreover have "replace_extension ((stem @ [CHR ''.'']) @ ext) new = (stem @ [CHR ''.'']) @ ext @ new"
      using dots ext by (rule replace_extension_leading_dots)
    ultimately show ?thesis by (simp add: n)
  qed
qed

lemma export_path_glb:
  "export_path p = ''/home/casey/dream/static/'' @ fst (splitext (basename p)) @ ''.glb''"
proof -
  have "CHR ''/'' \<notin> set (fst (splitext (basename p)) @ ''.glb'')"
    using splitext_fst_no_sep [OF basename_free, of p] by simp
  then have "normpath (''/home/casey/dream/static/'' @ fst (splitext (basename p)) @ ''.glb'')
      = ''/home/casey/dream/static/'' @ fst (splitext (basename p)) @ ''.glb''"
    using glb_name_not_special by (rule normpath_static)
  then show ?thesis
    by (simp only: export_path_def Let_def join_def foldl_Nil)
qed

lemma export_path_spec: "export_path p = spec_export_path p"
proof -
  have no_sep: "CHR ''/'' \<notin> set (replace_extension (basename p) ''.glb'')"
    using splitext_replace_extension [OF basename_free, of p "''.glb''", symmetric]
      splitext_fst_no_sep [OF basename_free, of p] by simp
  show ?thesis
    by (simp only: export_path_glb spec_export_path_def join_static_dir [OF no_sep]
        splitext_replace_extension [OF basename_free])
qed

section \<open>Properties of the operator and of registration\<close>

lemma execute_empty_path:
  "data_filepath h = [] \<Longrightarrow>
   execute gltf h =
     (Inr {CANCELLED}, h\<lparr>reports := reports h @ [({WARNING}, ''Please save the .blend file first.'')]\<rparr>)"
  by (simp add: execute_def report_def)

lemma execute_saved_path:
  "data_filepath h \<noteq> [] \<Longrightarrow>
   execute gltf h =
     (let args = \<lparr>filepath = export_path (data_filepath h), export_format = ''GLB'',
                  export_apply = True\<rparr>;
          h1 = h\<lparr>gltf_calls := gltf_calls h @ [args]\<rparr>
      in case gltf args of
           Some e \<Rightarrow> (Inl e, h1)
         | None \<Rightarrow> (Inr {FINISHED},
             h1\<lparr>reports := reports h @ [({INFO}, ''Exported to '' @ export_path (data_filepath h))]\<rparr>))"
  by (simp add: execute_def export_scene_gltf_def report_def Let_def split: option.split)

lemma execute_gltf_calls:
  "data_filepath h \<noteq> [] \<Longrightarrow>
   gltf_calls (snd (execute gltf h)) =
     gltf_calls h @ [\<lparr>filepath = export_path (data_filepath h), export_format = ''GLB'',
                      export_apply = True\<rparr>]"
  by (simp add: execute_saved_path Let_def split: option.split)

lemma register_fresh:
  "QuickExportGLTFOperator \<notin> set (registered_classes h) \<Longrightarrow>
   register h =
     (Inr (), h\<lparr>registered_classes := registered_classes h @ [QuickExportGLTFOperator],
               SCENE_PT_scene_draw_funcs := SCENE_PT_scene_draw_funcs h @ [Draw_export_button]\<rparr>)"
  by (simp add: register_def register_calls_def)

lemma unregister_loaded:
  "QuickExportGLTFOperator \<in> set (registered_classes h) \<Longrightarrow>
   unregister h =
     (Inr (), h\<lparr>SCENE_PT_scene_draw_funcs := remove1 Draw_export_button (SCENE_PT_scene_draw_funcs h),
               registered_classes := remove1 QuickExportGLTFOperator (registered_classes h)\<rparr>)"
  by (simp add: unregister_def unregister_calls_def)


lemma run_calls_returns_iff:
  "fst (run_calls cs h) = Inr () \<longleftrightarrow> length (states_after cs h) = length cs"
proof (induction cs arbitrary: h)
  case Nil
  show ?case by simp
next
  case (Cons c cs)
  show ?case
  proof (cases "host_call c h")
    case (Inl e)
    then show ?thesis by simp
  next
    case (Inr h1)
    with Cons [of h1] show ?thesis by simp
  qed
qed

lemma register_states:
  "states_after register_calls h
     = (if QuickExportGLTFOperator \<in> set (registered_classes h) then []
        else [h\<lparr>registered_classes := registered_classes h @ [QuickExportGLTFOperator]\<rparr>,
              h\<lparr>registered_classes := registered_classes h @ [QuickExportGLTFOperator],
                SCENE_PT_scene_draw_funcs := SCENE_PT_scene_draw_funcs h @ [Draw_export_button]\<rparr>])"
  by (simp add: register_calls_def)

lemma unregister_states:
  "states_after unregister_calls h
     = (if QuickExportGLTFOperator \<in> set (registered_classes h)
        then [h\<lparr>SCENE_PT_scene_draw_funcs := remove1 Draw_export_button (SCENE_PT_scene_draw_funcs h)\<rparr>,
              h\<lparr>SCENE_PT_scene_draw_funcs := remove1 Draw_export_button (SCENE_PT_scene_draw_funcs h),
                registered_classes := remove1 QuickExportGLTFOperator (registered_classes h)\<rparr>]
        else [h\<lparr>SCENE_PT_scene_draw_funcs := remove1 Draw_export_button (SCENE_PT_scene_draw_funcs h)\<rparr>])"
  by (simp add: unregister_calls_def)

lemma register_returns_iff:
  "fst (register h) = Inr () \<longleftrightarrow> QuickExportGLTFOperator \<notin> set (registered_classes h)"
  by (simp add: register_def register_calls_def)


section \<open>The claims\<close>

text \<open>
  C1, as amended. For every saved blend file whose basename is \<open>X.blend\<close>, with \<open>X\<close>
  not empty and containing neither a path separator nor a dot, the export path
  computed by \<open>execute\<close> is the fixed directory \<open>/home/casey/dream/static\<close> joined
  with \<open>X.glb\<close>.
\<close>

theorem blend_name_exports_as_glb:
  assumes "basename (data_filepath h) = X @ ''.blend''"
    and "X \<noteq> []" and "CHR ''/'' \<notin> set X" and "CHR ''.'' \<notin> set X"
  shows "export_path (data_filepath h) = join static_dir [X @ ''.glb'']
    \<and> map filepath (gltf_calls (snd (execute gltf h)))
      = map filepath (gltf_calls h) @ [join static_dir [X @ ''.glb'']]"
proof -
  have ne: "data_filepath h \<noteq> []"
    using assms(1) by (auto simp: basename_def)
  have "\<exists>c\<in>set X. c \<noteq> CHR ''.''"
    using assms(2,4) by (cases X) auto
  moreover have "CHR ''.'' \<notin> set ''blend''" by simp
  ultimately have "replace_extension (X @ CHR ''.'' # ''blend'') ''.glb'' = X @ ''.glb''"
    by (rule replace_extension_stem)
  then have "export_path (data_filepath h) = join static_dir [X @ ''.glb'']"
    using assms(1) by (simp add: export_path_spec spec_export_path_def)
  then show ?thesis
    using ne by (simp add: execute_gltf_calls)
qed

theorem blend_name_exports_as_glb_witness:
  "basename (data_filepath \<lparr>data_filepath = ''/home/casey/scenes/level1.blend'',
      registered_classes = [], SCENE_PT_scene_draw_funcs = [], gltf_calls = [],
      reports = []\<rparr>) = ''level1'' @ ''.blend''
   \<and> ''level1'' \<noteq> [] \<and> CHR ''/'' \<notin> set ''level1'' \<and> CHR ''.'' \<notin> set ''level1''
   \<and> export_path ''/home/casey/scenes/level1.blend'' = ''/home/casey/dream/static/level1.glb''
   \<and> map filepath (gltf_calls (snd (execute gltf_returns
        \<lparr>data_filepath = ''/home/casey/scenes/level1.blend'',
         registered_classes = [], SCENE_PT_scene_draw_funcs = [], gltf_calls = [],
         reports = []\<rparr>)))
      = [''/home/casey/dream/static/level1.glb'']"
proof -
  let ?h = "\<lparr>data_filepath = ''/home/casey/scenes/level1.blend'',
      registered_classes = [], SCENE_PT_scene_draw_funcs = [], gltf_calls = [],
      reports = []\<rparr>"
  have base: "basename (data_filepath ?h) = ''level1'' @ ''.blend''"
    by (simp add: basename_def)
  have x: "''level1'' \<noteq> []" "CHR ''/'' \<notin> set ''level1''" "CHR ''.'' \<notin> set ''level1''"
    by simp_all
  have j: "join static_dir [''level1'' @ ''.glb''] = ''/home/casey/dream/static/level1.glb''"
    by (simp add: join_static_dir)
  from blend_name_exports_as_glb [OF base x, of gltf_returns] base j
  show ?thesis by simp
qed

text \<open>
  The claim as first stated, with no condition on \<open>X\<close> being non-empty, fails for the
  file \<open>.blend\<close>: its basename is \<open>X.blend\<close> with \<open>X\<close> empty, and the export path is
  \<open>/home/casey/dream/static/.blend.glb\<close>, not the directory joined with \<open>.glb\<close>.
\<close>

theorem empty_blend_name_counterexample:
  "basename ''/home/casey/scenes/.blend'' = [] @ ''.blend''
   \<and> CHR ''/'' \<notin> set [] \<and> CHR ''.'' \<notin> set []
   \<and> export_path ''/home/casey/scenes/.blend'' = ''/home/casey/dream/static/.blend.glb''
   \<and> join static_dir [[] @ ''.glb''] = ''/home/casey/dream/static/.glb''
   \<and> export_path ''/home/casey/scenes/.blend'' \<noteq> join static_dir [[] @ ''.glb'']
   \<and> execute gltf_returns \<lparr>data_filepath = ''/home/casey/scenes/.blend'',
        registered_classes = [], SCENE_PT_scene_draw_funcs = [], gltf_calls = [],
        reports = []\<rparr>
     = (Inr {FINISHED},
        \<lparr>data_filepath = ''/home/casey/scenes/.blend'',
         registered_classes = [], SCENE_PT_scene_draw_funcs = [],
         gltf_calls = [\<lparr>filepath = ''/home/casey/dream/static/.blend.glb'',
                         export_format = ''GLB'', export_apply = True\<rparr>],
         reports = [({INFO}, ''Exported to /home/casey/dream/static/.blend.glb'')]\<rparr>)"
proof -
  have base: "basename ''/home/casey/scenes/.blend'' = ''.blend''"
    by (simp add: basename_def)
  have "splitext ''.blend'' = (''.blend'', [])"
    using splitext_leading_dots [of "''.''" "''blend''"] by simp
  then have path: "export_path ''/home/casey/scenes/.blend'' = ''/home/casey/dream/static/.blend.glb''"
    by (simp add: export_path_glb base)
  have j: "join static_dir [''.glb''] = ''/home/casey/dream/static/.glb''"
    by (simp add: join_static_dir)
  show ?thesis
    by (simp add: base path j execute_saved_path gltf_returns_def)
qed

text \<open>
  C2. When the document's file path read from the host is empty (the file was never
  saved), \<open>execute\<close> reports the warning "Please save the .blend file first."
  through \<open>report\<close>, returns \<open>{CANCELLED}\<close>, and makes no call to the host exporter:
  the report is the only change of the host state.
\<close>

theorem unsaved_file_is_cancelled:
  assumes "data_filepath h = []"
  shows "fst (execute gltf h) = Inr {CANCELLED}
    \<and> reports (snd (execute gltf h))
        = reports h @ [({WARNING}, ''Please save the .blend file first.'')]
    \<and> gltf_calls (snd (execute gltf h)) = gltf_calls h
    \<and> snd (execute gltf h)
        = h\<lparr>reports := reports h @ [({WARNING}, ''Please save the .blend file first.'')]\<rparr>"
  using assms by (simp add: execute_empty_path)

theorem unsaved_file_is_cancelled_witness:
  "data_filepath \<lparr>data_filepath = [], registered_classes = [QuickExportGLTFOperator],
      SCENE_PT_scene_draw_funcs = [Draw_export_button], gltf_calls = [], reports = []\<rparr> = []
   \<and> execute gltf_returns \<lparr>data_filepath = [], registered_classes = [QuickExportGLTFOperator],
      SCENE_PT_scene_draw_funcs = [Draw_export_button], gltf_calls = [], reports = []\<rparr>
     = (Inr {CANCELLED},
        \<lparr>data_filepath = [], registered_classes = [QuickExportGLTFOperator],
         SCENE_PT_scene_draw_funcs = [Draw_export_button], gltf_calls = [],
         reports = [({WARNING}, ''Please save the .blend file first.'')]\<rparr>)"
  using unsaved_file_is_cancelled [of "\<lparr>data_filepath = [],
      registered_classes = [QuickExportGLTFOperator],
      SCENE_PT_scene_draw_funcs = [Draw_export_button], gltf_calls = [], reports = []\<rparr>"
      gltf_returns]
  by (simp add: prod_eq_iff)

text \<open>
  C3, as amended. When the document's file path is not empty, \<open>execute\<close> calls the
  host exporter exactly once, with the computed export path and the fixed options
  \<open>export_format = "GLB"\<close> and \<open>export_apply = True\<close>, and never a second time.
  When that call returns, \<open>execute\<close> reports "Exported to" followed by the path and
  returns \<open>{FINISHED}\<close>. When that call raises, the exception leaves \<open>execute\<close>
  after that single call, and nothing is reported.
\<close>

theorem saved_file_is_exported_once:
  assumes "data_filepath h \<noteq> []"
  shows "gltf_calls (snd (execute gltf h))
      = gltf_calls h @ [\<lparr>filepath = export_path (data_filepath h), export_format = ''GLB'',
                          export_apply = True\<rparr>]
    \<and> (gltf \<lparr>filepath = export_path (data_filepath h), export_format = ''GLB'',
              export_apply = True\<rparr> = None \<longrightarrow>
          fst (execute gltf h) = Inr {FINISHED}
        \<and> reports (snd (execute gltf h))
            = reports h @ [({INFO}, ''Exported to '' @ export_path (data_filepath h))])
    \<and> (\<forall>e. gltf \<lparr>filepath = export_path (data_filepath h), export_format = ''GLB'',
              export_apply = True\<rparr> = Some e \<longrightarrow>
          fst (execute gltf h) = Inl e \<and> reports (snd (execute gltf h)) = reports h)"
  using assms
  by (cases "gltf \<lparr>filepath = export_path (data_filepath h), export_format = ''GLB'',
        export_apply = True\<rparr>")
     (simp_all add: execute_saved_path Let_def)

theorem saved_file_is_exported_once_witness:
  "data_filepath \<lparr>data_filepath = ''/home/casey/scenes/level1.blend'',
      registered_classes = [QuickExportGLTFOperator],
      SCENE_PT_scene_draw_funcs = [Draw_export_button], gltf_calls = [], reports = []\<rparr> \<noteq> []
   \<and> gltf_returns \<lparr>filepath = ''/home/casey/dream/static/level1.glb'', export_format = ''GLB'',
        export_apply = True\<rparr> = None
   \<and> execute gltf_returns \<lparr>data_filepath = ''/home/casey/scenes/level1.blend'',
      registered_classes = [QuickExportGLTFOperator],
      SCENE_PT_scene_draw_funcs = [Draw_export_button], gltf_calls = [], reports = []\<rparr>
     = (Inr {FINISHED},
        \<lparr>data_filepath = ''/home/casey/scenes/level1.blend'',
         registered_classes = [QuickExportGLTFOperator],
         SCENE_PT_scene_draw_funcs = [Draw_export_button],
         gltf_calls = [\<lparr>filepath = ''/home/casey/dream/static/level1.glb'',
                         export_format = ''GLB'', export_apply = True\<rparr>],
         reports = [({INFO}, ''Exported to /home/casey/dream/static/level1.glb'')]\<rparr>)"
proof -
  let ?h = "\<lparr>data_filepath = ''/home/casey/scenes/level1.blend'',
      registered_classes = [QuickExportGLTFOperator],
      SCENE_PT_scene_draw_funcs = [Draw_export_button], gltf_calls = [], reports = []\<rparr>"
  have path: "export_path ''/home/casey/scenes/level1.blend'' = ''/home/casey/dream/static/level1.glb''"
    by (simp add: export_path_glb basename_def splitext_def splitext_loop.simps)
  have frame: "snd (execute gltf_returns ?h)
      = ?h\<lparr>gltf_calls := gltf_calls (snd (execute gltf_returns ?h)),
            reports := reports (snd (execute gltf_returns ?h))\<rparr>"
    by (simp add: execute_saved_path gltf_returns_def)
  have ne: "data_filepath ?h \<noteq> []" by simp
  from saved_file_is_exported_once [OF ne, of gltf_returns] path frame
  show ?thesis
    by (simp add: prod_eq_iff gltf_returns_def)
qed

text \<open>
  The claim as first stated, that \<open>execute\<close> reports success and returns \<open>{FINISHED}\<close>
  whenever the file path is not empty, fails when the host exporter raises: the Python
  exception leaves \<open>execute\<close>, which has no \<^verbatim>\<open>try\<close>, before the report and the
  \<^verbatim>\<open>return\<close>. The exporter was called once all the same.
\<close>

theorem raising_exporter_counterexample:
  "data_filepath \<lparr>data_filepath = ''/home/casey/scenes/level1.blend'',
      registered_classes = [QuickExportGLTFOperator],
      SCENE_PT_scene_draw_funcs = [Draw_export_button], gltf_calls = [], reports = []\<rparr> \<noteq> []
   \<and> execute gltf_raises \<lparr>data_filepath = ''/home/casey/scenes/level1.blend'',
      registered_classes = [QuickExportGLTFOperator],
      SCENE_PT_scene_draw_funcs = [Draw_export_button], gltf_calls = [], reports = []\<rparr>
     = (Inl RuntimeError,
        \<lparr>data_filepath = ''/home/casey/scenes/level1.blend'',
         registered_classes = [QuickExportGLTFOperator],
         SCENE_PT_scene_draw_funcs = [Draw_export_button],
         gltf_calls = [\<lparr>filepath = ''/home/casey/dream/static/level1.glb'',
                         export_format = ''GLB'', export_apply = True\<rparr>],
         reports = []\<rparr>)
   \<and> fst (execute gltf_raises \<lparr>data_filepath = ''/home/casey/scenes/level1.blend'',
      registered_classes = [QuickExportGLTFOperator],
      SCENE_PT_scene_draw_funcs = [Draw_export_button], gltf_calls = [], reports = []\<rparr>)
     \<noteq> Inr {FINISHED}
   \<and> reports (snd (execute gltf_raises \<lparr>data_filepath = ''/home/casey/scenes/level1.blend'',
      registered_classes = [QuickExportGLTFOperator],
      SCENE_PT_scene_draw_funcs = [Draw_export_button], gltf_calls = [], reports = []\<rparr>)) = []"
proof -
  have path: "export_path ''/home/casey/scenes/level1.blend'' = ''/home/casey/dream/static/level1.glb''"
    by (simp add: export_path_glb basename_def splitext_def splitext_loop.simps)
  show ?thesis
    by (simp add: execute_saved_path gltf_raises_def path)
qed

text \<open>
  C4. For every non-empty source file path the computed output path is the fixed
  directory \<open>/home/casey/dream/static\<close> joined with the basename of the source file
  with its extension replaced by \<open>.glb\<close>; this is the path \<open>execute\<close> passes to the
  host exporter.
\<close>

theorem export_path_replaces_extension:
  assumes "data_filepath h \<noteq> []"
  shows "export_path (data_filepath h)
      = join static_dir [replace_extension (basename (data_filepath h)) ''.glb'']
    \<and> map filepath (gltf_calls (snd (execute gltf h)))
      = map filepath (gltf_calls h)
        @ [join static_dir [replace_extension (basename (data_filepath h)) ''.glb'']]"
  using assms
  by (simp add: execute_gltf_calls export_path_spec spec_export_path_def)

theorem export_path_replaces_extension_witness:
  "data_filepath \<lparr>data_filepath = ''/home/casey/scenes/level1.v2.blend'',
      registered_classes = [], SCENE_PT_scene_draw_funcs = [], gltf_calls = [],
      reports = []\<rparr> \<noteq> []
   \<and> replace_extension (basename ''/home/casey/scenes/level1.v2.blend'') ''.glb'' = ''level1.v2.glb''
   \<and> export_path ''/home/casey/scenes/level1.v2.blend'' = ''/home/casey/dream/static/level1.v2.glb''
   \<and> map filepath (gltf_calls (snd (execute gltf_returns
        \<lparr>data_filepath = ''/home/casey/scenes/level1.v2.blend'',
         registered_classes = [], SCENE_PT_scene_draw_funcs = [], gltf_calls = [],
         reports = []\<rparr>)))
      = [''/home/casey/dream/static/level1.v2.glb'']"
proof -
  let ?h = "\<lparr>data_filepath = ''/home/casey/scenes/level1.v2.blend'',
      registered_classes = [], SCENE_PT_scene_draw_funcs = [], gltf_calls = [],
      reports = []\<rparr>"
  have ne: "data_filepath ?h \<noteq> []" by simp
  have base: "basename ''/home/casey/scenes/level1.v2.blend'' = ''level1.v2.blend''"
    by (simp add: basename_def)
  have repl: "replace_extension ''level1.v2.blend'' ''.glb'' = ''level1.v2.glb''"
    by (simp add: replace_extension_def has_extension_def)
  have j: "join static_dir [''level1.v2.glb''] = ''/home/casey/dream/static/level1.v2.glb''"
    by (simp add: join_static_dir)
  from export_path_replaces_extension [OF ne, of gltf_returns] base repl j
  show ?thesis by simp
qed

text \<open>
  C5, as amended. When the draw-button callback is not in the panel's list already,
  a call of \<open>register\<close> that returns has added the operator class and appended the
  callback, and \<open>unregister\<close> then returns and restores the registry, and the whole
  host state, to what it was before \<open>register\<close>.
\<close>

theorem register_unregister_roundtrip:
  assumes "fst (register h) = Inr ()"
    and "Draw_export_button \<notin> set (SCENE_PT_scene_draw_funcs h)"
  shows "register h
      = (Inr (), h\<lparr>registered_classes := registered_classes h @ [QuickExportGLTFOperator],
                  SCENE_PT_scene_draw_funcs := SCENE_PT_scene_draw_funcs h @ [Draw_export_button]\<rparr>)
    \<and> unregister (snd (register h)) = (Inr (), h)"
proof -
  from assms(1) have "QuickExportGLTFOperator \<notin> set (registered_classes h)"
    by (simp add: register_returns_iff)
  with assms(2) show ?thesis
    by (simp add: register_fresh unregister_loaded remove1_append)
qed

theorem register_unregister_roundtrip_witness:
  "Draw_export_button \<notin> set (SCENE_PT_scene_draw_funcs \<lparr>data_filepath = ''/home/casey/scenes/level1.blend'',
      registered_classes = [Host_class 0], SCENE_PT_scene_draw_funcs = [Host_draw 0, Host_draw 2],
      gltf_calls = [], reports = []\<rparr>)
   \<and> register \<lparr>data_filepath = ''/home/casey/scenes/level1.blend'',
      registered_classes = [Host_class 0], SCENE_PT_scene_draw_funcs = [Host_draw 0, Host_draw 2],
      gltf_calls = [], reports = []\<rparr>
     = (Inr (), \<lparr>data_filepath = ''/home/casey/scenes/level1.blend'',
         registered_classes = [Host_class 0, QuickExportGLTFOperator],
         SCENE_PT_scene_draw_funcs = [Host_draw 0, Host_draw 2, Draw_export_button],
         gltf_calls = [], reports = []\<rparr>)
   \<and> unregister \<lparr>data_filepath = ''/home/casey/scenes/level1.blend'',
         registered_classes = [Host_class 0, QuickExportGLTFOperator],
         SCENE_PT_scene_draw_funcs = [Host_draw 0, Host_draw 2, Draw_export_button],
         gltf_calls = [], reports = []\<rparr>
     = (Inr (), \<lparr>data_filepath = ''/home/casey/scenes/level1.blend'',
      registered_classes = [Host_class 0], SCENE_PT_scene_draw_funcs = [Host_draw 0, Host_draw 2],
      gltf_calls = [], reports = []\<rparr>)"
proof -
  let ?h = "\<lparr>data_filepath = ''/home/casey/scenes/level1.blend'',
      registered_classes = [Host_class 0], SCENE_PT_scene_draw_funcs = [Host_draw 0, Host_draw 2],
      gltf_calls = [], reports = []\<rparr>"
  have returns: "fst (register ?h) = Inr ()"
    by (simp add: register_returns_iff)
  have no_button: "Draw_export_button \<notin> set (SCENE_PT_scene_draw_funcs ?h)"
    by simp
  from register_unregister_roundtrip [OF returns no_button]
  have reg: "register ?h
      = (Inr (), ?h\<lparr>registered_classes := registered_classes ?h @ [QuickExportGLTFOperator],
                  SCENE_PT_scene_draw_funcs := SCENE_PT_scene_draw_funcs ?h @ [Draw_export_button]\<rparr>)"
    and unreg: "unregister (snd (register ?h)) = (Inr (), ?h)"
    by blast+
  from unreg have "unregister (?h\<lparr>registered_classes := registered_classes ?h @ [QuickExportGLTFOperator],
                  SCENE_PT_scene_draw_funcs := SCENE_PT_scene_draw_funcs ?h @ [Draw_export_button]\<rparr>)
      = (Inr (), ?h)"
    by (simp only: reg snd_conv)
  with reg show ?thesis by simp
qed

text \<open>
  The claim as first stated, for every registry state, fails when the callback is in
  the panel's list already: \<open>register\<close> appends it at the end, \<open>unregister\<close> removes
  its first occurrence, and the list comes back in another order.
\<close>

theorem register_unregister_counterexample:
  "fst (register \<lparr>data_filepath = [], registered_classes = [],
       SCENE_PT_scene_draw_funcs = [Draw_export_button, Host_draw 0],
       gltf_calls = [], reports = []\<rparr>) = Inr ()
   \<and> unregister (snd (register \<lparr>data_filepath = [], registered_classes = [],
       SCENE_PT_scene_draw_funcs = [Draw_export_button, Host_draw 0],
       gltf_calls = [], reports = []\<rparr>))
     = (Inr (), \<lparr>data_filepath = [], registered_classes = [],
       SCENE_PT_scene_draw_funcs = [Host_draw 0, Draw_export_button],
       gltf_calls = [], reports = []\<rparr>)
   \<and> snd (unregister (snd (register \<lparr>data_filepath = [], registered_classes = [],
       SCENE_PT_scene_draw_funcs = [Draw_export_button, Host_draw 0],
       gltf_calls = [], reports = []\<rparr>)))
     \<noteq> \<lparr>data_filepath = [], registered_classes = [],
       SCENE_PT_scene_draw_funcs = [Draw_export_button, Host_draw 0],
       gltf_calls = [], reports = []\<rparr>"
  by (simp add: register_def register_calls_def unregister_def unregister_calls_def)

text \<open>
  C6. The computed export path depends on the basename of the source file only: two
  non-empty source paths with the same basename give the same export path and the
  same call of the host exporter, whatever directories the files are in.
\<close>

theorem export_path_depends_on_basename_only:
  assumes "data_filepath h1 \<noteq> []" and "data_filepath h2 \<noteq> []"
    and "basename (data_filepath h1) = basename (data_filepath h2)"
  shows "export_path (data_filepath h1) = export_path (data_filepath h2)
    \<and> last (gltf_calls (snd (execute gltf1 h1))) = last (gltf_calls (snd (execute gltf2 h2)))"
proof -
  have "export_path (data_filepath h1) = export_path (data_filepath h2)"
    using assms(3) by (simp add: export_path_def)
  then show ?thesis
    using assms(1,2) by (simp add: execute_gltf_calls)
qed

theorem export_path_depends_on_basename_only_witness:
  "data_filepath \<lparr>data_filepath = ''/home/casey/a/scene.blend'', registered_classes = [],
      SCENE_PT_scene_draw_funcs = [], gltf_calls = [], reports = []\<rparr> \<noteq> []
   \<and> data_filepath \<lparr>data_filepath = ''/tmp/b/c/scene.blend'', registered_classes = [],
      SCENE_PT_scene_draw_funcs = [], gltf_calls = [], reports = []\<rparr> \<noteq> []
   \<and> basename ''/home/casey/a/scene.blend'' = basename ''/tmp/b/c/scene.blend''
   \<and> export_path ''/home/casey/a/scene.blend'' = export_path ''/tmp/b/c/scene.blend''
   \<and> last (gltf_calls (snd (execute gltf_returns
        \<lparr>data_filepath = ''/home/casey/a/scene.blend'', registered_classes = [],
         SCENE_PT_scene_draw_funcs = [], gltf_calls = [], reports = []\<rparr>)))
     = last (gltf_calls (snd (execute gltf_returns
        \<lparr>data_filepath = ''/tmp/b/c/scene.blend'', registered_classes = [],
         SCENE_PT_scene_draw_funcs = [], gltf_calls = [], reports = []\<rparr>)))"
proof -
  let ?h1 = "\<lparr>data_filepath = ''/home/casey/a/scene.blend'', registered_classes = [],
      SCENE_PT_scene_draw_funcs = [], gltf_calls = [], reports = []\<rparr>"
  let ?h2 = "\<lparr>data_filepath = ''/tmp/b/c/scene.blend'', registered_classes = [],
      SCENE_PT_scene_draw_funcs = [], gltf_calls = [], reports = []\<rparr>"
  have ne1: "data_filepath ?h1 \<noteq> []" and ne2: "data_filepath ?h2 \<noteq> []" by simp_all
  have base: "basename (data_filepath ?h1) = basename (data_filepath ?h2)"
    by (simp add: basename_def)
  from export_path_depends_on_basename_only [OF ne1 ne2 base, of gltf_returns gltf_returns] base
  show ?thesis by simp
qed




text \<open>
  C8. Only the final extension of the basename is stripped before \<open>.glb\<close> is added:
  \<^item> a basename \<open>stem.ext\<close>, where \<open>ext\<close> has no dot and \<open>stem\<close> has a character other
    than a dot, exports as \<open>stem.glb\<close>, the dots inside \<open>stem\<close> kept
    (\<open>a.b.blend\<close> exports as \<open>a.b.glb\<close>);
  \<^item> a basename with no dot gets \<open>.glb\<close> added (\<open>foo\<close> exports as \<open>foo.glb\<close>);
  \<^item> a basename whose only dots are leading ones is not substituted
    (\<open>.blend\<close> exports as \<open>.blend.glb\<close>).
\<close>

theorem only_final_extension_is_stripped:
  "(basename p = stem @ CHR ''.'' # ext \<and> (\<exists>c\<in>set stem. c \<noteq> CHR ''.'') \<and> CHR ''.'' \<notin> set ext
      \<longrightarrow> export_path p = ''/home/casey/dream/static/'' @ stem @ ''.glb'')
   \<and> (CHR ''.'' \<notin> set (basename p)
      \<longrightarrow> export_path p = ''/home/casey/dream/static/'' @ basename p @ ''.glb'')
   \<and> (basename p = dots @ rest \<and> dots \<noteq> [] \<and> (\<forall>c\<in>set dots. c = CHR ''.'') \<and> CHR ''.'' \<notin> set rest
      \<longrightarrow> export_path p = ''/home/casey/dream/static/'' @ dots @ rest @ ''.glb'')"
proof (intro conjI impI)
  assume a: "basename p = stem @ CHR ''.'' # ext \<and> (\<exists>c\<in>set stem. c \<noteq> CHR ''.'') \<and> CHR ''.'' \<notin> set ext"
  then have "CHR ''/'' \<notin> set (stem @ CHR ''.'' # ext)"
    using basename_free [of p] by simp
  then have "splitext (stem @ CHR ''.'' # ext) = (stem, CHR ''.'' # ext)"
    using a by (intro splitext_stem) simp_all
  with a show "export_path p = ''/home/casey/dream/static/'' @ stem @ ''.glb''"
    by (simp add: export_path_glb)
next
  assume "CHR ''.'' \<notin> set (basename p)"
  then show "export_path p = ''/home/casey/dream/static/'' @ basename p @ ''.glb''"
    by (simp add: export_path_glb splitext_no_dot)
next
  assume a: "basename p = dots @ rest \<and> dots \<noteq> [] \<and> (\<forall>c\<in>set dots. c = CHR ''.'') \<and> CHR ''.'' \<notin> set rest"
  then have "CHR ''/'' \<notin> set (dots @ rest)"
    using basename_free [of p] by simp
  then have "splitext (dots @ rest) = (dots @ rest, [])"
    using a by (intro splitext_leading_dots) simp_all
  with a show "export_path p = ''/home/casey/dream/static/'' @ dots @ rest @ ''.glb''"
    by (simp add: export_path_glb)
qed

theorem only_final_extension_is_stripped_witness:
  "export_path ''/home/casey/scenes/a.b.blend'' = ''/home/casey/dream/static/a.b.glb''
   \<and> export_path ''/home/casey/scenes/foo'' = ''/home/casey/dream/static/foo.glb''
   \<and> export_path ''/home/casey/scenes/.blend'' = ''/home/casey/dream/static/.blend.glb''"
proof -
  have b1: "basename ''/home/casey/scenes/a.b.blend'' = ''a.b'' @ CHR ''.'' # ''blend''"
    and b2: "basename ''/home/casey/scenes/foo'' = ''foo''"
    and b3: "basename ''/home/casey/scenes/.blend'' = ''.'' @ ''blend''"
    by (simp_all add: basename_def)
  have "export_path ''/home/casey/scenes/a.b.blend'' = ''/home/casey/dream/static/'' @ ''a.b'' @ ''.glb''"
    using only_final_extension_is_stripped
      [where p = "''/home/casey/scenes/a.b.blend''" and stem = "''a.b''" and ext = "''blend''"] b1
    by simp
  moreover have "export_path ''/home/casey/scenes/foo'' = ''/home/casey/dream/static/'' @ ''foo'' @ ''.glb''"
    using only_final_extension_is_stripped [where p = "''/home/casey/scenes/foo''"] b2
    by simp
  moreover have "export_path ''/home/casey/scenes/.blend'' = ''/home/casey/dream/static/'' @ ''.'' @ ''blend'' @ ''.glb''"
    using only_final_extension_is_stripped
      [where p = "''/home/casey/scenes/.blend''" and dots = "''.''" and rest = "''blend''"] b3
    by simp
  ultimately show ?thesis by simp
qed




text \<open>
  C10. \<open>execute\<close> changes neither the host state it reads nor the registration state:
  \<open>bpy.data.filepath\<close>, the registered classes and the panel's draw callbacks are the
  same after every call, whatever the host exporter does with its call. The only
  effects are at most one call of the host exporter and the report messages.
\<close>

theorem execute_frame:
  "data_filepath (snd (execute gltf h)) = data_filepath h
   \<and> registered_classes (snd (execute gltf h)) = registered_classes h
   \<and> SCENE_PT_scene_draw_funcs (snd (execute gltf h)) = SCENE_PT_scene_draw_funcs h
   \<and> (\<exists>calls msgs. length calls \<le> 1
        \<and> snd (execute gltf h)
            = h\<lparr>gltf_calls := gltf_calls h @ calls, reports := reports h @ msgs\<rparr>)"
proof (cases "data_filepath h = []")
  case True
  then have "snd (execute gltf h)
      = h\<lparr>gltf_calls := gltf_calls h @ [],
           reports := reports h @ [({WARNING}, ''Please save the .blend file first.'')]\<rparr>"
    by (simp add: execute_empty_path)
  moreover have "length ([] :: gltf_args list) \<le> 1" by simp
  ultimately have "\<exists>calls msgs. length calls \<le> 1
        \<and> snd (execute gltf h)
            = h\<lparr>gltf_calls := gltf_calls h @ calls, reports := reports h @ msgs\<rparr>"
    by blast
  with True show ?thesis by (simp add: execute_empty_path)
next
  case False
  let ?args = "\<lparr>filepath = export_path (data_filepath h), export_format = ''GLB'',
                  export_apply = True\<rparr>"
  have fields: "data_filepath (snd (execute gltf h)) = data_filepath h
     \<and> registered_classes (snd (execute gltf h)) = registered_classes h
     \<and> SCENE_PT_scene_draw_funcs (snd (execute gltf h)) = SCENE_PT_scene_draw_funcs h"
    using False by (cases "gltf ?args") (simp_all add: execute_saved_path Let_def)
  have "\<exists>msgs. snd (execute gltf h)
      = h\<lparr>gltf_calls := gltf_calls h @ [?args], reports := reports h @ msgs\<rparr>"
  proof (cases "gltf ?args")
    case None
    with False have "snd (execute gltf h)
        = h\<lparr>gltf_calls := gltf_calls h @ [?args],
             reports := reports h @ [({INFO}, ''Exported to '' @ export_path (data_filepath h))]\<rparr>"
      by (simp add: execute_saved_path Let_def)
    then show ?thesis by blast
  next
    case (Some e)
    with False have "snd (execute gltf h)
        = h\<lparr>gltf_calls := gltf_calls h @ [?args], reports := reports h @ []\<rparr>"
      by (simp add: execute_saved_path Let_def)
    then show ?thesis by blast
  qed
  moreover have "length [?args] \<le> 1" by simp
  ultimately have "\<exists>calls msgs. length calls \<le> 1
        \<and> snd (execute gltf h)
            = h\<lparr>gltf_calls := gltf_calls h @ calls, reports := reports h @ msgs\<rparr>"
    by blast
  with fields show ?thesis by blast
qed

end
